theory Spec2Isabelle
  imports Complex_Main
begin

section \<open>Numeric model\<close>

text \<open>
  The program (orbitals.py) computes with numpy double-precision arrays. The model
  uses exact real arithmetic for finite values and keeps the special values of IEEE
  arithmetic that the program can produce without raising: a division by zero on a
  numpy array yields an infinity or NaN (with a warning), never an exception. Rounding,
  overflow and underflow are outside the model.
\<close>

datatype npfloat = Fin real | PInf | NInf | NaN

datatype npcomplex = CFin complex | CNaN

text \<open>Exceptions the program can raise: Python's own float division, and the
  argument checks of the numeric libraries.\<close>

datatype error = ZeroDivisionError | ValueError

type_synonym 'a arr3 = "'a list list list"

definition map3 :: "('a \<Rightarrow> 'b) \<Rightarrow> 'a arr3 \<Rightarrow> 'b arr3" where
  "map3 f A = map (map (map f)) A"

definition zip3 :: "('a \<Rightarrow> 'b \<Rightarrow> 'c) \<Rightarrow> 'a arr3 \<Rightarrow> 'b arr3 \<Rightarrow> 'c arr3" where
  "zip3 f A B = map2 (map2 (map2 f)) A B"

text \<open>An array has shape \<open>(a, b, c)\<close>.\<close>

definition has_shape :: "'a arr3 \<Rightarrow> nat \<Rightarrow> nat \<Rightarrow> nat \<Rightarrow> bool" where
  "has_shape A a b c \<longleftrightarrow>
     length A = a \<and> list_all (\<lambda>P. length P = b \<and> list_all (\<lambda>row. length row = c) P) A"

text \<open>Array division \<open>x / y\<close> of numpy on finite operands.\<close>

definition np_divide :: "real \<Rightarrow> real \<Rightarrow> npfloat" where
  "np_divide x y =
     (if y \<noteq> 0 then Fin (x / y)
      else if 0 < x then PInf
      else if x < 0 then NInf
      else NaN)"

text \<open>\<open>np.clip(a, lo, hi)\<close>: infinities are clipped, NaN is propagated.\<close>

fun np_clip :: "npfloat \<Rightarrow> real \<Rightarrow> real \<Rightarrow> npfloat" where
  "np_clip (Fin x) lo hi = Fin (min (max x lo) hi)"
| "np_clip PInf lo hi = Fin hi"
| "np_clip NInf lo hi = Fin lo"
| "np_clip NaN lo hi = NaN"

text \<open>\<open>np.arccos\<close>: NaN outside \<open>[-1, 1]\<close> and on NaN.\<close>

fun np_arccos :: "npfloat \<Rightarrow> npfloat" where
  "np_arccos (Fin x) = (if -1 \<le> x \<and> x \<le> 1 then Fin (arccos x) else NaN)"
| "np_arccos PInf = NaN"
| "np_arccos NInf = NaN"
| "np_arccos NaN = NaN"

text \<open>\<open>np.arctan2(y, x)\<close> on finite operands, with values in \<open>(-pi, pi]\<close>.\<close>

definition np_arctan2 :: "real \<Rightarrow> real \<Rightarrow> real" where
  "np_arctan2 y x =
     (if 0 < x then arctan (y / x)
      else if x < 0 \<and> 0 \<le> y then arctan (y / x) + pi
      else if x < 0 then arctan (y / x) - pi
      else if 0 < y then pi / 2
      else if y < 0 then - (pi / 2)
      else 0)"

text \<open>
  \<open>np.linspace(start, stop, num)\<close>: \<open>num\<close> samples \<open>start + i * step\<close> with
  \<open>step = (stop - start) / (num - 1)\<close>, the last one set to \<open>stop\<close>; for \<open>num = 1\<close> the
  single sample is \<open>start\<close>; a negative \<open>num\<close> raises \<open>ValueError\<close>. (When the step is
  zero numpy scales \<open>i / (num - 1)\<close> by \<open>stop - start\<close> instead, which gives the same
  samples.)
\<close>

definition linspace :: "real \<Rightarrow> real \<Rightarrow> int \<Rightarrow> error + real list" where
  "linspace start stop num =
     (if num < 0 then Inl ValueError
      else
        let d = num - 1; delta = stop - start in
        if 0 < d then
          let step = delta / real_of_int d;
              y = map (\<lambda>i. real i * step + start) [0..<nat num]
          in Inr (y[nat num - 1 := stop])
        else Inr (map (\<lambda>i. real i * delta + start) [0..<nat num]))"

text \<open>\<open>np.meshgrid(x, y, z, indexing='ij')\<close>.\<close>

definition meshgrid :: "real list \<Rightarrow> real list \<Rightarrow> real list \<Rightarrow> real arr3 \<times> real arr3 \<times> real arr3" where
  "meshgrid x y z =
     (map (\<lambda>a. map (\<lambda>b. map (\<lambda>c. a) z) y) x,
      map (\<lambda>a. map (\<lambda>b. map (\<lambda>c. b) z) y) x,
      map (\<lambda>a. map (\<lambda>b. map (\<lambda>c. c) z) y) x)"

section \<open>Special functions of scipy\<close>

text \<open>\<open>scipy.special.factorial\<close> (inexact): zero on negative arguments.\<close>

definition factorial :: "int \<Rightarrow> real" where
  "factorial k = (if k < 0 then 0 else fact (nat k))"

text \<open>The generalized Laguerre polynomial of degree \<open>k\<close> and parameter \<open>a\<close>.\<close>

definition laguerre_poly :: "nat \<Rightarrow> nat \<Rightarrow> real \<Rightarrow> real" where
  "laguerre_poly k a x =
     (\<Sum>i\<le>k. (-1) ^ i * real ((k + a) choose (k - i)) * x ^ i / fact i)"

text \<open>\<open>scipy.special.genlaguerre(n, alpha)\<close>: rejects \<open>alpha \<le> -1\<close>, then \<open>n < 0\<close>.\<close>

definition genlaguerre :: "int \<Rightarrow> int \<Rightarrow> error + (real \<Rightarrow> real)" where
  "genlaguerre k alpha =
     (if alpha \<le> -1 then Inl ValueError
      else if k < 0 then Inl ValueError
      else Inr (laguerre_poly (nat k) (nat alpha)))"

text \<open>The \<open>m\<close>-th derivative of the Legendre polynomial of degree \<open>n\<close>.\<close>

definition legendre_deriv :: "nat \<Rightarrow> nat \<Rightarrow> real \<Rightarrow> real" where
  "legendre_deriv n m x =
     (\<Sum>k\<le>n div 2.
        if m + 2 * k \<le> n
        then (-1) ^ k * real (n choose k) * real ((2 * n - 2 * k) choose n)
               * (fact (n - 2 * k) / fact (n - 2 * k - m)) * x ^ (n - 2 * k - m)
        else 0) / 2 ^ n"

text \<open>The associated Legendre function, Condon-Shortley phase included.\<close>

definition assoc_legendre :: "nat \<Rightarrow> int \<Rightarrow> real \<Rightarrow> real" where
  "assoc_legendre n m x =
     (if 0 \<le> m
      then (-1) ^ nat m * sqrt (1 - x\<^sup>2) ^ nat m * legendre_deriv n (nat m) x
      else (-1) ^ nat (- m) * (fact (n - nat (- m)) / fact (n + nat (- m)))
             * ((-1) ^ nat (- m) * sqrt (1 - x\<^sup>2) ^ nat (- m) * legendre_deriv n (nat (- m)) x))"

text \<open>
  \<open>scipy.special.sph_harm(m, n, theta, phi)\<close> with \<open>theta\<close> the azimuthal and \<open>phi\<close> the
  polar angle. It raises nothing: the result is NaN when \<open>|m| > n\<close> and when \<open>n < 0\<close>. A
  polar angle that is not a finite number has no cosine, and every associated Legendre
  function of degree \<open>n \<ge> 1\<close> evaluated there is NaN; the function of degree 0 is the
  constant 1 and does not use the angle, so for \<open>n = 0\<close> the result is the finite constant
  \<open>sqrt (1 / (4 pi))\<close> even then.
\<close>

definition sph_harm :: "int \<Rightarrow> int \<Rightarrow> real \<Rightarrow> npfloat \<Rightarrow> npcomplex" where
  "sph_harm m n az pol =
     (if n < 0 \<or> n < \<bar>m\<bar> then CNaN
      else case pol of
        Fin p \<Rightarrow>
          CFin (of_real (sqrt ((2 * real_of_int n + 1) / (4 * pi)
                           * (factorial (n - m) / factorial (n + m)))
                         * assoc_legendre (nat n) m (cos p))
                * exp (\<i> * of_real (real_of_int m * az)))
      | _ \<Rightarrow> if n = 0 then CFin (of_real (sqrt (1 / (4 * pi)))) else CNaN)"

text \<open>Product of a real and a complex array entry, \<open>np.abs\<close> and squaring.\<close>

fun np_mul :: "real \<Rightarrow> npcomplex \<Rightarrow> npcomplex" where
  "np_mul a (CFin c) = CFin (of_real a * c)"
| "np_mul a CNaN = CNaN"

fun np_abs :: "npcomplex \<Rightarrow> npfloat" where
  "np_abs (CFin c) = Fin (cmod c)"
| "np_abs CNaN = NaN"

fun np_square :: "npfloat \<Rightarrow> npfloat" where
  "np_square (Fin x) = Fin (x\<^sup>2)"
| "np_square PInf = PInf"
| "np_square NInf = PInf"
| "np_square NaN = NaN"

section \<open>The program\<close>

text \<open>
  \<open>radial_wavefunction(n, l, r)\<close>. The array operations raise nothing; the scalar
  quotient \<open>2/(n*a0)\<close> is a division of Python floats and raises \<open>ZeroDivisionError\<close>
  when \<open>n = 0\<close>; \<open>genlaguerre\<close> raises \<open>ValueError\<close> on its argument checks. Whenever
  \<open>genlaguerre\<close> accepts its arguments and \<open>n\<close> is not zero, both factorial arguments
  are non-negative and the divisor of the normalisation is positive (lemma
  \<open>norm_divisor_pos\<close>), so the value of the normalisation is only observed where it is a
  finite real.
\<close>

definition radial_wavefunction :: "int \<Rightarrow> int \<Rightarrow> real arr3 \<Rightarrow> error + real arr3" where
  "radial_wavefunction n l r =
     (let r1 = map3 (\<lambda>x. max x (1 / 10 ^ 10)) r;
          a0 = 1;
          rho = map3 (\<lambda>x. 2 * x / (real_of_int n * a0)) r1
      in if real_of_int n * a0 = 0 then Inl ZeroDivisionError
         else
           let norm = sqrt ((2 / (real_of_int n * a0)) ^ 3 * factorial (n - l - 1)
                            / (2 * real_of_int n * factorial (n + l)))
           in case genlaguerre (n - l - 1) (2 * l + 1) of
                Inl e \<Rightarrow> Inl e
              | Inr L \<Rightarrow>
                  Inr (zip3 (\<lambda>a b. a * b)
                        (zip3 (\<lambda>a b. a * b)
                           (map3 (\<lambda>p. norm * exp (- p / 2)) rho)
                           (map3 (\<lambda>p. p powi l) rho))
                        (map3 L rho)))"

text \<open>\<open>angular_wavefunction(l, m, theta, phi) = sph_harm(m, l, phi, theta)\<close>.\<close>

definition angular_wavefunction :: "int \<Rightarrow> int \<Rightarrow> npfloat arr3 \<Rightarrow> real arr3 \<Rightarrow> npcomplex arr3" where
  "angular_wavefunction l m theta phi = zip3 (\<lambda>p t. sph_harm m l p t) phi theta"

text \<open>The local arrays \<open>r\<close>, \<open>theta\<close> and \<open>phi\<close> of \<open>compute_density\<close>.\<close>

definition grid_r :: "real arr3 \<Rightarrow> real arr3 \<Rightarrow> real arr3 \<Rightarrow> real arr3" where
  "grid_r X Y Z =
     map3 sqrt (zip3 (\<lambda>a b. a + b) (zip3 (\<lambda>a b. a + b) (map3 (\<lambda>a. a\<^sup>2) X) (map3 (\<lambda>a. a\<^sup>2) Y))
                  (map3 (\<lambda>a. a\<^sup>2) Z))"

definition grid_theta :: "real arr3 \<Rightarrow> real arr3 \<Rightarrow> npfloat arr3" where
  "grid_theta Z r = map3 np_arccos (map3 (\<lambda>q. np_clip q (-1) 1) (zip3 np_divide Z r))"

definition grid_phi :: "real arr3 \<Rightarrow> real arr3 \<Rightarrow> real arr3" where
  "grid_phi Y X = zip3 np_arctan2 Y X"

text \<open>\<open>|psi|^2\<close> before the mask, and the assignment \<open>density[mask] = 0\<close>.\<close>

definition density_unmasked :: "real arr3 \<Rightarrow> npcomplex arr3 \<Rightarrow> npfloat arr3" where
  "density_unmasked R Y_ang = map3 np_square (map3 np_abs (zip3 np_mul R Y_ang))"

definition apply_mask :: "real arr3 \<Rightarrow> npfloat arr3 \<Rightarrow> npfloat arr3" where
  "apply_mask X density =
     zip3 (\<lambda>b d. if b then Fin 0 else d) (map3 (\<lambda>a. 0 \<le> a) X) density"

text \<open>\<open>compute_density(n, l, m, grid_range, grid_points)\<close>.\<close>

definition compute_density ::
  "int \<Rightarrow> int \<Rightarrow> int \<Rightarrow> real \<Rightarrow> int \<Rightarrow> error + (real arr3 \<times> real arr3 \<times> real arr3 \<times> npfloat arr3)" where
  "compute_density n l m grid_range grid_points =
     (case linspace (- grid_range) grid_range grid_points of
        Inl e \<Rightarrow> Inl e
      | Inr x \<Rightarrow>
     (case linspace (- grid_range) grid_range grid_points of
        Inl e \<Rightarrow> Inl e
      | Inr y \<Rightarrow>
     (case linspace (- grid_range) grid_range grid_points of
        Inl e \<Rightarrow> Inl e
      | Inr z \<Rightarrow>
          (case meshgrid x y z of (X, Y, Z) \<Rightarrow>
             let r = grid_r X Y Z;
                 theta = grid_theta Z r;
                 phi = grid_phi Y X
             in case radial_wavefunction n l r of
                  Inl e \<Rightarrow> Inl e
                | Inr R \<Rightarrow>
                    let Y_ang = angular_wavefunction l m theta phi;
                        density = density_unmasked R Y_ang
                    in Inr (X, Y, Z, apply_mask X density)))))"

text \<open>
  The caller's \<open>max_density = np.max(density)\<close>: the maximum over all entries; NaN is
  propagated, and an empty array raises \<open>ValueError\<close>.
\<close>

fun np_maximum :: "npfloat \<Rightarrow> npfloat \<Rightarrow> npfloat" where
  "np_maximum NaN b = NaN"
| "np_maximum a NaN = NaN"
| "np_maximum PInf b = PInf"
| "np_maximum a PInf = PInf"
| "np_maximum NInf b = b"
| "np_maximum a NInf = a"
| "np_maximum (Fin x) (Fin y) = Fin (max x y)"

definition np_max :: "npfloat arr3 \<Rightarrow> error + npfloat" where
  "np_max A =
     (let xs = concat (concat A)
      in if xs = [] then Inl ValueError else Inr (foldl np_maximum (hd xs) (tl xs)))"

section \<open>Specification notions\<close>

text \<open>
  The invariants of the specification's data model: a quantum state has \<open>n \<ge> 1\<close>,
  \<open>0 \<le> l \<le> n - 1\<close> and \<open>- l \<le> m \<le> l\<close> (\<open>valid_nl\<close> is its part on \<open>n\<close> and \<open>l\<close>); a grid
  specification has a positive extent and at least two points per axis.
\<close>

definition valid_nl :: "int \<Rightarrow> int \<Rightarrow> bool" where
  "valid_nl n l \<longleftrightarrow> 1 \<le> n \<and> 0 \<le> l \<and> l \<le> n - 1"

definition valid_state :: "int \<Rightarrow> int \<Rightarrow> int \<Rightarrow> bool" where
  "valid_state n l m \<longleftrightarrow> 1 \<le> n \<and> 0 \<le> l \<and> l \<le> n - 1 \<and> - l \<le> m \<and> m \<le> l"

definition valid_grid :: "real \<Rightarrow> int \<Rightarrow> bool" where
  "valid_grid e k \<longleftrightarrow> 0 < e \<and> 2 \<le> k"

text \<open>
  The radial formula in the words of the specification: the normalisation constant
  \<open>sqrt ((2/n)^3 (n - l - 1)! / (2 n (n + l)!))\<close>, and the value
  \<open>norm * exp (- rho / 2) * rho ^ l * L rho\<close> at one radius, with \<open>rho = 2 r / n\<close> after
  flooring \<open>r\<close> at \<open>1e-10\<close>. The program's \<open>radial_wavefunction\<close> is compared with it.
\<close>

definition spec_norm :: "int \<Rightarrow> int \<Rightarrow> real" where
  "spec_norm n l =
     sqrt ((2 / real_of_int n) ^ 3 * fact (nat (n - l - 1)) / (2 * real_of_int n * fact (nat (n + l))))"

definition spec_radial :: "int \<Rightarrow> int \<Rightarrow> real \<Rightarrow> real" where
  "spec_radial n l r =
     (let rho = 2 * max r (1 / 10 ^ 10) / real_of_int n
      in spec_norm n l * exp (- rho / 2) * rho ^ nat l
           * laguerre_poly (nat (n - l - 1)) (nat (2 * l + 1)) rho)"

text \<open>Properties of arrays: all entries satisfy a predicate; an entry is a finite real
  \<open>\<ge> 0\<close>; two arrays have the same shape.\<close>

definition all3 :: "('a \<Rightarrow> bool) \<Rightarrow> 'a arr3 \<Rightarrow> bool" where
  "all3 P A = list_all (list_all (list_all P)) A"

fun nonneg :: "npfloat \<Rightarrow> bool" where
  "nonneg (Fin x) = (0 \<le> x)"
| "nonneg PInf = False"
| "nonneg NInf = False"
| "nonneg NaN = False"

definition same_shape :: "'a arr3 \<Rightarrow> 'b arr3 \<Rightarrow> bool" where
  "same_shape A B \<longleftrightarrow> map (map length) A = map (map length) B"

section \<open>The program, point by point\<close>

text \<open>
  The array program is an elementwise computation over a full outer-product grid. The
  following closed forms are proved equal to it below (\<open>linspace_samples\<close>,
  \<open>compute_density_valid\<close>): the samples of one axis, the array built from a function of
  the three coordinates of a grid point, and that function for the radius, the polar
  angle, the density before the mask and the returned density.
\<close>

definition samples :: "real \<Rightarrow> real \<Rightarrow> int \<Rightarrow> real list" where
  "samples s t k =
     map (\<lambda>i. if k = 1 then s
               else if int i = k - 1 then t
               else s + real i * ((t - s) / real_of_int (k - 1))) [0..<nat k]"

definition mesh3 :: "('a \<Rightarrow> 'b \<Rightarrow> 'c \<Rightarrow> 'd) \<Rightarrow> 'a list \<Rightarrow> 'b list \<Rightarrow> 'c list \<Rightarrow> 'd arr3" where
  "mesh3 f x y z = map (\<lambda>a. map (\<lambda>b. map (\<lambda>c. f a b c) z) y) x"

definition pt_r :: "real \<Rightarrow> real \<Rightarrow> real \<Rightarrow> real" where
  "pt_r a b c = sqrt (a\<^sup>2 + b\<^sup>2 + c\<^sup>2)"

definition pt_theta :: "real \<Rightarrow> real \<Rightarrow> real \<Rightarrow> npfloat" where
  "pt_theta a b c = np_arccos (np_clip (np_divide c (pt_r a b c)) (-1) 1)"

definition pt_unmasked :: "int \<Rightarrow> int \<Rightarrow> int \<Rightarrow> real \<Rightarrow> real \<Rightarrow> real \<Rightarrow> npfloat" where
  "pt_unmasked n l m a b c =
     np_square (np_abs (np_mul (spec_radial n l (pt_r a b c))
                               (sph_harm m l (np_arctan2 b a) (pt_theta a b c))))"

definition pt_density :: "int \<Rightarrow> int \<Rightarrow> int \<Rightarrow> real \<Rightarrow> real \<Rightarrow> real \<Rightarrow> npfloat" where
  "pt_density n l m a b c = (if 0 \<le> a then Fin 0 else pt_unmasked n l m a b c)"

text \<open>The coordinate arrays and the masked density that \<open>compute_density\<close> returns for
  valid \<open>(n, l)\<close>, in closed form.\<close>

definition density_field ::
  "int \<Rightarrow> int \<Rightarrow> int \<Rightarrow> real \<Rightarrow> int \<Rightarrow> real arr3 \<times> real arr3 \<times> real arr3 \<times> npfloat arr3" where
  "density_field n l m e k =
     (let x = samples (- e) e k
      in (mesh3 (\<lambda>a b c. a) x x x, mesh3 (\<lambda>a b c. b) x x x, mesh3 (\<lambda>a b c. c) x x x,
          mesh3 (pt_density n l m) x x x))"

section \<open>Array and pointwise lemmas\<close>

lemma map2_same: "map2 f (map g xs) (map h xs) = map (\<lambda>x. f (g x) (h x)) xs"
  by (induction xs) simp_all

lemma map3_mesh3: "map3 g (mesh3 f x y z) = mesh3 (\<lambda>a b c. g (f a b c)) x y z"
  by (simp add: map3_def mesh3_def comp_def)

lemma zip3_mesh3:
  "zip3 g (mesh3 f x y z) (mesh3 h x y z) = mesh3 (\<lambda>a b c. g (f a b c) (h a b c)) x y z"
  by (simp add: zip3_def mesh3_def map2_same)

lemma meshgrid_mesh3:
  "meshgrid x y z = (mesh3 (\<lambda>a b c. a) x y z, mesh3 (\<lambda>a b c. b) x y z, mesh3 (\<lambda>a b c. c) x y z)"
  by (simp add: meshgrid_def mesh3_def)

lemma has_shape_mesh3: "has_shape (mesh3 f x y z) (length x) (length y) (length z)"
  by (simp add: has_shape_def mesh3_def list_all_iff)

lemma mesh3_nth:
  "i < length x \<Longrightarrow> j < length y \<Longrightarrow> k < length z \<Longrightarrow>
   mesh3 f x y z ! i ! j ! k = f (x ! i) (y ! j) (z ! k)"
  by (simp add: mesh3_def)

lemma zip3_map3: "zip3 g (map3 f A) (map3 h A) = map3 (\<lambda>x. g (f x) (h x)) A"
  by (simp add: zip3_def map3_def map2_same)

lemma map3_map3: "map3 g (map3 f A) = map3 (\<lambda>x. g (f x)) A"
  by (simp add: map3_def comp_def)

lemma radial_valid:
  assumes "valid_nl n l"
  shows "radial_wavefunction n l r = Inr (map3 (spec_radial n l) r)"
proof -
  have "spec_radial n l =
      (\<lambda>x. spec_norm n l * exp (- (2 * max x (1 / 10 ^ 10) / real_of_int n) / 2)
             * (2 * max x (1 / 10 ^ 10) / real_of_int n) ^ nat l
             * laguerre_poly (nat (n - l - 1)) (nat (2 * l + 1))
                 (2 * max x (1 / 10 ^ 10) / real_of_int n))"
    by (simp add: fun_eq_iff spec_radial_def Let_def)
  then show ?thesis
    using assms
    by (simp add: radial_wavefunction_def Let_def genlaguerre_def valid_nl_def factorial_def
        zip3_map3 map3_map3 spec_norm_def power_int_def)
qed

lemma radial_fails_iff:
  "isl (radial_wavefunction n l r) \<longleftrightarrow> \<not> valid_nl n l"
  by (auto simp add: radial_wavefunction_def Let_def genlaguerre_def valid_nl_def split: sum.splits if_splits)

lemma linspace_samples: "0 \<le> k \<Longrightarrow> linspace s t k = Inr (samples s t k)"
  by (auto simp add: linspace_def samples_def Let_def nth_list_update intro!: nth_equalityI)

lemma linspace_neg: "k < 0 \<Longrightarrow> linspace s t k = Inl ValueError"
  by (simp add: linspace_def)

lemma length_samples [simp]: "length (samples s t k) = nat k"
  by (simp add: samples_def)

lemma grid_r_mesh3:
  "grid_r (mesh3 (\<lambda>a b c. a) x y z) (mesh3 (\<lambda>a b c. b) x y z) (mesh3 (\<lambda>a b c. c) x y z)
     = mesh3 pt_r x y z"
  by (simp add: grid_r_def map3_mesh3 zip3_mesh3 pt_r_def[abs_def])

lemma grid_theta_mesh3:
  "grid_theta (mesh3 (\<lambda>a b c. c) x y z) (mesh3 pt_r x y z) = mesh3 pt_theta x y z"
  by (simp add: grid_theta_def map3_mesh3 zip3_mesh3 pt_theta_def[abs_def])

lemma grid_phi_mesh3:
  "grid_phi (mesh3 (\<lambda>a b c. b) x y z) (mesh3 (\<lambda>a b c. a) x y z)
     = mesh3 (\<lambda>a b c. np_arctan2 b a) x y z"
  by (simp add: grid_phi_def zip3_mesh3)

lemma density_unmasked_mesh3:
  "density_unmasked (map3 (spec_radial n l) (mesh3 pt_r x y z))
     (angular_wavefunction l m (mesh3 pt_theta x y z) (mesh3 (\<lambda>a b c. np_arctan2 b a) x y z))
   = mesh3 (pt_unmasked n l m) x y z"
  by (simp add: density_unmasked_def angular_wavefunction_def map3_mesh3 zip3_mesh3
      pt_unmasked_def[abs_def])

lemma apply_mask_mesh3:
  "apply_mask (mesh3 (\<lambda>a b c. a) x y z) (mesh3 (pt_unmasked n l m) x y z)
     = mesh3 (pt_density n l m) x y z"
  by (simp add: apply_mask_def map3_mesh3 zip3_mesh3 pt_density_def[abs_def])

lemma compute_density_valid:
  assumes "valid_nl n l" and "0 \<le> k"
  shows "compute_density n l m e k =
     (let x = samples (- e) e k in
      Inr (mesh3 (\<lambda>a b c. a) x x x, mesh3 (\<lambda>a b c. b) x x x, mesh3 (\<lambda>a b c. c) x x x,
           mesh3 (pt_density n l m) x x x))"
  using assms
  by (simp add: compute_density_def linspace_samples meshgrid_mesh3 Let_def grid_r_mesh3
      grid_theta_mesh3 grid_phi_mesh3 radial_valid density_unmasked_mesh3 apply_mask_mesh3)

lemma compute_density_fails_iff:
  "isl (compute_density n l m e k) \<longleftrightarrow> k < 0 \<or> \<not> valid_nl n l"
proof (cases "k < 0")
  case True
  then show ?thesis by (simp add: compute_density_def linspace_neg)
next
  case False
  then have k: "0 \<le> k" by simp
  show ?thesis
  proof (cases "valid_nl n l")
    case True
    then show ?thesis using k by (simp add: compute_density_valid Let_def)
  next
    case False
    then have "radial_wavefunction n l r \<noteq> Inr R" for r R
      using radial_fails_iff [of n l r] by auto
    then show ?thesis using k False
      by (auto simp add: compute_density_def linspace_samples meshgrid_mesh3 Let_def
          split: sum.splits)
  qed
qed

lemma valid_state_nl: "valid_state n l m \<Longrightarrow> valid_nl n l"
  by (simp add: valid_state_def valid_nl_def)

lemma pt_r_zero_iff: "pt_r a b c = 0 \<longleftrightarrow> a = 0 \<and> b = 0 \<and> c = 0"
proof -
  have "a\<^sup>2 + b\<^sup>2 + c\<^sup>2 = 0 \<longleftrightarrow> a = 0 \<and> b = 0 \<and> c = 0"
    by (auto simp add: add_nonneg_eq_0_iff)
  then show ?thesis by (simp add: pt_r_def)
qed

lemma pt_theta_origin: "pt_theta 0 0 0 = NaN"
  by (simp add: pt_theta_def pt_r_def np_divide_def)

lemma pt_theta_fin: "pt_r a b c \<noteq> 0 \<Longrightarrow> \<exists>t. pt_theta a b c = Fin t"
  by (simp add: pt_theta_def np_divide_def)

lemma sph_harm_fin: "0 \<le> l \<Longrightarrow> \<bar>m\<bar> \<le> l \<Longrightarrow> \<exists>c. sph_harm m l az (Fin t) = CFin c"
  by (simp add: sph_harm_def)

lemma sph_harm_nan: "l \<noteq> 0 \<Longrightarrow> sph_harm m l az NaN = CNaN"
  by (simp add: sph_harm_def)

lemma sph_harm_nan_s: "sph_harm 0 0 az NaN = CFin (of_real (sqrt (1 / (4 * pi))))"
  by (simp add: sph_harm_def)

lemma pt_unmasked_origin: "l \<noteq> 0 \<Longrightarrow> pt_unmasked n l m 0 0 0 = NaN"
  by (simp add: pt_unmasked_def pt_theta_origin sph_harm_nan)

lemma pt_unmasked_origin_s:
  "pt_unmasked n 0 0 0 0 0 = Fin ((spec_radial n 0 0 * sqrt (1 / (4 * pi)))\<^sup>2)"
  by (simp add: pt_unmasked_def pt_theta_origin sph_harm_nan_s pt_r_def norm_mult
      power_mult_distrib)

lemma pt_unmasked_nonneg:
  assumes "valid_state n l m" and "pt_r a b c \<noteq> 0"
  shows "nonneg (pt_unmasked n l m a b c)"
proof -
  obtain t where t: "pt_theta a b c = Fin t" using pt_theta_fin [OF assms(2)] by blast
  have "0 \<le> l" "\<bar>m\<bar> \<le> l" using assms(1) by (auto simp add: valid_state_def)
  then obtain z where "sph_harm m l (np_arctan2 b a) (Fin t) = CFin z"
    using sph_harm_fin by blast
  then show ?thesis by (simp add: pt_unmasked_def t)
qed

lemma pt_density_nonneg:
  assumes "valid_state n l m"
  shows "nonneg (pt_density n l m a b c)"
proof (cases "0 \<le> a")
  case True
  then show ?thesis by (simp add: pt_density_def)
next
  case False
  then have "pt_r a b c \<noteq> 0" by (simp add: pt_r_zero_iff)
  then show ?thesis using False assms by (simp add: pt_density_def pt_unmasked_nonneg)
qed

lemma pt_density_masked: "0 \<le> a \<Longrightarrow> pt_density n l m a b c = Fin 0"
  by (simp add: pt_density_def)

lemma all3_mesh3: "(\<And>a b c. P (f a b c)) \<Longrightarrow> all3 P (mesh3 f x y z)"
  by (simp add: all3_def mesh3_def list_all_iff)

lemma np_maximum_nonneg: "nonneg a \<Longrightarrow> nonneg b \<Longrightarrow> nonneg (np_maximum a b)"
  by (cases a; cases b) simp_all

lemma foldl_np_maximum_nonneg:
  "nonneg a \<Longrightarrow> list_all nonneg xs \<Longrightarrow> nonneg (foldl np_maximum a xs)"
  by (induction xs arbitrary: a) (simp_all add: np_maximum_nonneg)

lemma nonneg_Fin: "nonneg v \<Longrightarrow> \<exists>x. v = Fin x \<and> 0 \<le> x"
  by (cases v) simp_all

lemma np_max_nonneg:
  assumes "all3 nonneg A" and "concat (concat A) \<noteq> []"
  shows "\<exists>v. np_max A = Inr (Fin v) \<and> 0 \<le> v"
proof -
  let ?xs = "concat (concat A)"
  have all: "list_all nonneg ?xs"
    using assms(1) by (auto simp add: all3_def list_all_iff)
  then have "nonneg (hd ?xs)" "list_all nonneg (tl ?xs)"
    using assms(2) by (cases ?xs; simp)+
  then have "nonneg (foldl np_maximum (hd ?xs) (tl ?xs))"
    by (rule foldl_np_maximum_nonneg)
  then show ?thesis using assms(2) nonneg_Fin by (simp add: np_max_def Let_def)
qed

lemma concat_mesh3_nonempty:
  "x \<noteq> [] \<Longrightarrow> y \<noteq> [] \<Longrightarrow> z \<noteq> [] \<Longrightarrow> concat (concat (mesh3 f x y z)) \<noteq> []"
  by (cases x; cases y; cases z) (simp_all add: mesh3_def)

lemma same_shape_map3: "same_shape (map3 f A) A"
  by (simp add: same_shape_def map3_def comp_def)

lemma spec_radial_floor: "spec_radial n l (max x (1 / 10 ^ 10)) = spec_radial n l x"
  by (simp add: spec_radial_def)

section \<open>The radial evaluator\<close>

text \<open>
  Claim C3. For every valid \<open>(n, l)\<close>, that is \<open>n \<ge> 1\<close> and \<open>0 \<le> l \<le> n - 1\<close>, and every array
  of radii \<open>r\<close>, \<open>radial_wavefunction\<close> raises nothing and returns an array of the shape of
  \<open>r\<close> whose entries are \<open>norm * exp (- rho / 2) * rho ^ l * L rho\<close>, with \<open>rho = 2 r / n\<close>
  after flooring \<open>r\<close>, \<open>L\<close> the generalized Laguerre polynomial of degree \<open>n - l - 1\<close> and
  parameter \<open>2 l + 1\<close>, and \<open>norm = sqrt ((2/n)^3 (n - l - 1)! / (2 n (n + l)!))\<close>; the
  entries are reals.
\<close>

theorem radial_wavefunction_formula:
  assumes "valid_nl n l"
  shows "\<exists>R. radial_wavefunction n l r = Inr R \<and> R = map3 (spec_radial n l) r \<and> same_shape R r"
  using assms by (simp add: radial_valid same_shape_map3)

theorem radial_wavefunction_formula_witness:
  "valid_nl 2 1 \<and>
   (\<exists>R. radial_wavefunction 2 1 [[[1, 2]]] = Inr R
        \<and> R = [[[spec_radial 2 1 1, spec_radial 2 1 2]]] \<and> same_shape R [[[1::real, 2]]])"
proof -
  have v: "valid_nl 2 1" by (simp add: valid_nl_def)
  show ?thesis
    using v radial_wavefunction_formula [OF v, of "[[[1, 2]]]"] by (simp add: map3_def)
qed

text \<open>
  Claim C4. For every valid \<open>(n, l)\<close> the radial evaluator raises nothing on any array of
  radii, its result is the one it gives on the radii floored at \<open>1e-10\<close>, and at \<open>r = 0\<close>
  it returns the (real, hence finite) value of the formula at \<open>r = 1e-10\<close>.
\<close>

theorem radial_wavefunction_floor:
  assumes "valid_nl n l"
  shows "(\<exists>R. radial_wavefunction n l r = Inr R)
       \<and> radial_wavefunction n l r = radial_wavefunction n l (map3 (\<lambda>x. max x (1 / 10 ^ 10)) r)
       \<and> radial_wavefunction n l [[[0]]] = Inr [[[spec_radial n l (1 / 10 ^ 10)]]]"
proof -
  have "spec_radial n l 0 = spec_radial n l (1 / 10 ^ 10)"
    using spec_radial_floor [of n l 0] by simp
  then have z: "radial_wavefunction n l [[[0]]] = Inr [[[spec_radial n l (1 / 10 ^ 10)]]]"
    using assms by (simp add: radial_valid) (simp add: map3_def)
  have "(\<lambda>x. spec_radial n l (max x (1 / 10 ^ 10))) = spec_radial n l"
    using spec_radial_floor by (rule ext)
  then have "map3 (spec_radial n l) (map3 (\<lambda>x. max x (1 / 10 ^ 10)) r) = map3 (spec_radial n l) r"
    by (simp only: map3_map3)
  then have f: "radial_wavefunction n l r
      = radial_wavefunction n l (map3 (\<lambda>x. max x (1 / 10 ^ 10)) r)"
    using assms by (simp only: radial_valid)
  have "\<exists>R. radial_wavefunction n l r = Inr R"
    using assms by (simp only: radial_valid) blast
  then show ?thesis using z f by blast
qed

theorem radial_wavefunction_floor_witness:
  "valid_nl 1 0 \<and> radial_wavefunction 1 0 [[[0]]] = Inr [[[spec_radial 1 0 (1 / 10 ^ 10)]]]
   \<and> radial_wavefunction 1 0 [[[0, 5]]] = radial_wavefunction 1 0 [[[1 / 10 ^ 10, 5]]]"
proof -
  have v: "valid_nl 1 0" by (simp add: valid_nl_def)
  show ?thesis
    using v radial_wavefunction_floor [OF v, of "[[[0, 5]]]"] by (simp add: map3_def)
qed

lemma compute_density_field:
  "valid_nl n l \<Longrightarrow> 0 \<le> k \<Longrightarrow> compute_density n l m e k = Inr (density_field n l m e k)"
  by (simp add: compute_density_valid density_field_def Let_def)

lemma radial_error:
  "\<not> valid_nl n l \<Longrightarrow>
   radial_wavefunction n l r = Inl (if n = 0 then ZeroDivisionError else ValueError)"
  by (auto simp add: radial_wavefunction_def Let_def genlaguerre_def valid_nl_def)

lemma compute_density_error:
  assumes "0 \<le> k" and "\<not> valid_nl n l"
  shows "compute_density n l m e k = Inl (if n = 0 then ZeroDivisionError else ValueError)"
  using assms
  by (simp add: compute_density_def linspace_samples meshgrid_mesh3 Let_def radial_error)

lemma compute_density_neg: "k < 0 \<Longrightarrow> compute_density n l m e k = Inl ValueError"
  by (simp add: compute_density_def linspace_neg)

lemma compute_density_Inr:
  assumes "compute_density n l m e k = Inr res"
  shows "valid_nl n l \<and> 0 \<le> k \<and> res = density_field n l m e k"
proof -
  have "\<not> isl (compute_density n l m e k)" using assms by simp
  then have "valid_nl n l" "0 \<le> k" by (auto simp add: compute_density_fails_iff)
  then show ?thesis using assms by (simp add: compute_density_field)
qed

lemma has_shape_samples:
  "has_shape (mesh3 f (samples s t k) (samples s t k) (samples s t k)) (nat k) (nat k) (nat k)"
  using has_shape_mesh3 [of f "samples s t k" "samples s t k" "samples s t k"] by simp

lemma has_shape_field:
  "density_field n l m e k = (X, Y, Z, d) \<Longrightarrow>
   has_shape X (nat k) (nat k) (nat k) \<and> has_shape Y (nat k) (nat k) (nat k)
   \<and> has_shape Z (nat k) (nat k) (nat k) \<and> has_shape d (nat k) (nat k) (nat k)"
  by (auto simp add: density_field_def Let_def has_shape_samples)

section \<open>Validation of the quantum numbers\<close>

text \<open>
  Claim C1, as the claim states it, fails: for \<open>n = 3\<close>, \<open>l = 2\<close>, \<open>m = 3\<close> the program
  raises nothing and returns arrays.
\<close>

theorem invalid_m_not_rejected: "\<exists>X Y Z d. compute_density 3 2 3 15 10 = Inr (X, Y, Z, d)"
proof -
  have "valid_nl 3 2" by (simp add: valid_nl_def)
  then have "compute_density 3 2 3 15 10 = Inr (density_field 3 2 3 15 10)"
    by (simp add: compute_density_field)
  then show ?thesis by (metis prod_cases4)
qed

text \<open>
  Claim C1, amended. \<open>compute_density\<close> has no validation of its own and no
  \<open>InvalidQuantumState\<close> error. With a non-negative number of grid points it raises
  \<open>ZeroDivisionError\<close> when \<open>n = 0\<close> and the \<open>ValueError\<close> of \<open>genlaguerre\<close> when \<open>n < 0\<close> or
  \<open>l\<close> is outside \<open>[0, n - 1]\<close>; \<open>m\<close> is never checked, and for every other input,
  whatever \<open>m\<close> is, it returns the coordinate arrays and a complete field.
\<close>

theorem compute_density_no_state_validation:
  "compute_density n l m e k =
     (if k < 0 then Inl ValueError
      else if n = 0 then Inl ZeroDivisionError
      else if n < 1 \<or> l < 0 \<or> n - 1 < l then Inl ValueError
      else Inr (density_field n l m e k))"
proof (cases "k < 0")
  case True
  then show ?thesis by (simp add: compute_density_neg)
next
  case False
  then have k: "0 \<le> k" by simp
  show ?thesis
  proof (cases "valid_nl n l")
    case True
    then show ?thesis
      using k compute_density_field [OF True k, of m e] by (simp add: valid_nl_def)
  next
    case False
    then show ?thesis
      using k compute_density_error [OF k False, of m e] by (auto simp add: valid_nl_def)
  qed
qed

theorem compute_density_no_state_validation_witness:
  "compute_density 1 1 0 15 10 = Inl ValueError
   \<and> compute_density 0 0 0 15 10 = Inl ZeroDivisionError
   \<and> compute_density 3 2 3 15 10 = Inr (density_field 3 2 3 15 10)"
  using compute_density_no_state_validation [of 1 1 0 15 10]
    compute_density_no_state_validation [of 0 0 0 15 10]
    compute_density_no_state_validation [of 3 2 3 15 10]
  by simp

lemma samples_one: "samples s t 1 = [s]"
  by (simp add: samples_def)

lemma compute_density_decomp:
  assumes "compute_density n l m e k = Inr (X, Y, Z, d)"
  shows "\<exists>R. radial_wavefunction n l (grid_r X Y Z) = Inr R
           \<and> d = apply_mask X (density_unmasked R
                   (angular_wavefunction l m (grid_theta Z (grid_r X Y Z)) (grid_phi Y X)))"
  using assms
  by (auto simp add: compute_density_def Let_def split: sum.splits prod.splits)

lemma field_nth:
  assumes "density_field n l m e k = (X, Y, Z, d)"
    and "i < nat k" and "j < nat k" and "q < nat k"
  shows "X ! i ! j ! q = samples (- e) e k ! i"
    and "Y ! i ! j ! q = samples (- e) e k ! j"
    and "Z ! i ! j ! q = samples (- e) e k ! q"
    and "d ! i ! j ! q = pt_density n l m (X ! i ! j ! q) (Y ! i ! j ! q) (Z ! i ! j ! q)"
  using assms by (auto simp add: density_field_def Let_def mesh3_nth)

section \<open>The visibility mask\<close>

text \<open>
  Claim C2. For every valid quantum state and grid \<open>compute_density\<close> returns, and whenever
  it returns, the returned density is exactly zero at every grid point whose X coordinate
  is \<open>\<ge> 0\<close>, and it is the mask applied to the finished field \<open>|psi|^2\<close>: the radial and
  angular factors and their squared product are computed on the whole grid first, without
  reference to the mask.
\<close>

theorem compute_density_mask:
  "(valid_state n l m \<and> valid_grid e k \<longrightarrow>
      (\<exists>X Y Z d. compute_density n l m e k = Inr (X, Y, Z, d)))
   \<and> (\<forall>X Y Z d. compute_density n l m e k = Inr (X, Y, Z, d) \<longrightarrow>
        (\<exists>R. radial_wavefunction n l (grid_r X Y Z) = Inr R
           \<and> d = apply_mask X (density_unmasked R
                   (angular_wavefunction l m (grid_theta Z (grid_r X Y Z)) (grid_phi Y X))))
        \<and> (\<forall>i<nat k. \<forall>j<nat k. \<forall>q<nat k. 0 \<le> X ! i ! j ! q \<longrightarrow> d ! i ! j ! q = Fin 0))"
proof (intro conjI allI impI)
  assume a: "valid_state n l m \<and> valid_grid e k"
  then have "valid_nl n l" "0 \<le> k" using valid_state_nl by (auto simp add: valid_grid_def)
  then have "compute_density n l m e k = Inr (density_field n l m e k)"
    by (rule compute_density_field)
  then show "\<exists>X Y Z d. compute_density n l m e k = Inr (X, Y, Z, d)"
    by (metis prod_cases4)
next
  fix X Y Z d
  assume cd: "compute_density n l m e k = Inr (X, Y, Z, d)"
  then show "\<exists>R. radial_wavefunction n l (grid_r X Y Z) = Inr R
           \<and> d = apply_mask X (density_unmasked R
                   (angular_wavefunction l m (grid_theta Z (grid_r X Y Z)) (grid_phi Y X)))"
    by (rule compute_density_decomp)
next
  fix X Y Z d i j q
  assume cd: "compute_density n l m e k = Inr (X, Y, Z, d)"
    and i: "i < nat k" and j: "j < nat k" and q: "q < nat k" and x: "0 \<le> X ! i ! j ! q"
  have "density_field n l m e k = (X, Y, Z, d)"
    using compute_density_Inr [OF cd] by simp
  then have "d ! i ! j ! q = pt_density n l m (X ! i ! j ! q) (Y ! i ! j ! q) (Z ! i ! j ! q)"
    using i j q by (rule field_nth(4))
  then show "d ! i ! j ! q = Fin 0" using x by (simp add: pt_density_masked)
qed

theorem compute_density_mask_witness:
  "valid_state 1 0 0 \<and> valid_grid 15 2
   \<and> (\<exists>X Y Z d. compute_density 1 0 0 15 2 = Inr (X, Y, Z, d) \<and> (1::nat) < nat 2 \<and> (0::nat) < nat 2
         \<and> 0 \<le> X ! 1 ! 0 ! 0 \<and> d ! 1 ! 0 ! 0 = Fin 0)"
proof -
  have s: "valid_state 1 0 0" by (simp add: valid_state_def)
  have g: "valid_grid 15 2" by (simp add: valid_grid_def)
  obtain X Y Z d where cd: "compute_density 1 0 0 15 2 = Inr (X, Y, Z, d)"
    using s g compute_density_mask [of 1 0 0 15 2] by blast
  then have df: "density_field 1 0 0 15 2 = (X, Y, Z, d)"
    using compute_density_Inr by simp
  have i: "(1::nat) < nat 2" and j: "(0::nat) < nat 2" by simp_all
  have "X ! 1 ! 0 ! 0 = samples (- 15) 15 2 ! 1"
    using df i j j by (rule field_nth(1))
  then have x: "0 \<le> X ! 1 ! 0 ! 0" by (simp add: samples_def)
  have "d ! 1 ! 0 ! 0 = Fin 0"
    using cd i j x compute_density_mask [of 1 0 0 15 2] by blast
  then show ?thesis using s g cd i j x by blast
qed

section \<open>Validation of the grid\<close>

text \<open>
  Claim C7, as the claim states it, fails: with extent \<open>-15 \<le> 0\<close> and resolution \<open>1 < 2\<close>
  the program raises nothing and returns a field of one point.
\<close>

theorem grid_spec_not_rejected:
  "compute_density 1 0 0 (- 15) 1 = Inr ([[[15]]], [[[15]]], [[[15]]], [[[Fin 0]]])"
proof -
  have "valid_nl 1 0" by (simp add: valid_nl_def)
  then have "compute_density 1 0 0 (- 15) 1 = Inr (density_field 1 0 0 (- 15) 1)"
    by (simp add: compute_density_field)
  then show ?thesis
    by (simp add: density_field_def samples_one mesh3_def pt_density_def Let_def)
qed

text \<open>
  Claim C7, amended. \<open>compute_density\<close> has no grid validation and no \<open>InvalidGridSpec\<close>
  error. A negative resolution is rejected by \<open>linspace\<close> with a \<open>ValueError\<close>, before any
  array or special function is computed and whatever the quantum numbers are. For every
  extent, positive or not, and every resolution \<open>k \<ge> 0\<close>, also 0 and 1, a state with valid
  \<open>(n, l)\<close> yields coordinate arrays and a field of shape \<open>k x k x k\<close>.
\<close>

theorem compute_density_no_grid_validation:
  "(k < 0 \<longrightarrow> compute_density n l m e k = Inl ValueError)
   \<and> (0 \<le> k \<and> valid_nl n l \<longrightarrow>
        (\<exists>X Y Z d. compute_density n l m e k = Inr (X, Y, Z, d)
           \<and> has_shape X (nat k) (nat k) (nat k) \<and> has_shape Y (nat k) (nat k) (nat k)
           \<and> has_shape Z (nat k) (nat k) (nat k) \<and> has_shape d (nat k) (nat k) (nat k)))"
proof (intro conjI impI)
  assume "k < 0"
  then show "compute_density n l m e k = Inl ValueError" by (rule compute_density_neg)
next
  assume a: "0 \<le> k \<and> valid_nl n l"
  obtain X Y Z d where df: "density_field n l m e k = (X, Y, Z, d)"
    by (metis prod_cases4)
  then have "compute_density n l m e k = Inr (X, Y, Z, d)"
    using a by (simp add: compute_density_field)
  then show "\<exists>X Y Z d. compute_density n l m e k = Inr (X, Y, Z, d)
           \<and> has_shape X (nat k) (nat k) (nat k) \<and> has_shape Y (nat k) (nat k) (nat k)
           \<and> has_shape Z (nat k) (nat k) (nat k) \<and> has_shape d (nat k) (nat k) (nat k)"
    using has_shape_field [OF df] by blast
qed

theorem compute_density_no_grid_validation_witness:
  "(-1::int) < 0 \<and> compute_density 1 0 0 15 (-1) = Inl ValueError
   \<and> (0::int) \<le> 1 \<and> valid_nl 1 0
   \<and> (\<exists>X Y Z d. compute_density 1 0 0 (- 15) 1 = Inr (X, Y, Z, d) \<and> has_shape d 1 1 1)
   \<and> (\<exists>X Y Z d. compute_density 1 0 0 0 0 = Inr (X, Y, Z, d) \<and> has_shape d 0 0 0)"
proof -
  have v: "valid_nl 1 0" by (simp add: valid_nl_def)
  show ?thesis
    using v compute_density_no_grid_validation [of "-1" 1 0 0 15]
      compute_density_no_grid_validation [of 1 1 0 0 "- 15"]
      compute_density_no_grid_validation [of 0 1 0 0 0]
    by simp blast
qed

lemma field_nonneg:
  assumes "valid_state n l m" and "density_field n l m e k = (X, Y, Z, d)"
  shows "all3 nonneg d"
proof -
  have "all3 nonneg (mesh3 (pt_density n l m) x x x)" for x
    using assms(1) by (intro all3_mesh3 pt_density_nonneg)
  then show ?thesis using assms(2) by (auto simp add: density_field_def Let_def)
qed

lemma field_nonempty:
  assumes "1 \<le> k" and "density_field n l m e k = (X, Y, Z, d)"
  shows "concat (concat d) \<noteq> []"
proof -
  have "samples (- e) e k \<noteq> []" using assms(1) by (auto simp add: samples_def)
  then have "concat (concat (mesh3 (pt_density n l m) (samples (- e) e k) (samples (- e) e k)
      (samples (- e) e k))) \<noteq> []"
    by (intro concat_mesh3_nonempty)
  then show ?thesis using assms(2) by (auto simp add: density_field_def Let_def)
qed

lemma spec_radial_1s: "spec_radial 1 0 r = 2 * exp (- max r (1 / 10 ^ 10))"
proof -
  have "sqrt ((2::real) ^ 3 / 2) = 2"
    by (simp add: real_sqrt_eq_iff [of _ 2, unfolded real_sqrt_abs2] power2_eq_square)
  then show ?thesis
    by (simp add: spec_radial_def spec_norm_def laguerre_poly_def Let_def)
qed

lemma sph_harm_00: "sph_harm 0 0 az (Fin t) = CFin (of_real (sqrt (1 / (4 * pi))))"
  by (simp add: sph_harm_def factorial_def assoc_legendre_def legendre_deriv_def)

lemma pt_unmasked_1s_pos:
  assumes "pt_r a b c \<noteq> 0"
  shows "\<exists>v. pt_unmasked 1 0 0 a b c = Fin v \<and> 0 < v"
proof -
  obtain t where t: "pt_theta a b c = Fin t" using pt_theta_fin [OF assms] by blast
  have "0 < 2 * exp (- max (pt_r a b c) (1 / 10 ^ 10)) * sqrt (1 / (4 * pi))"
    by simp
  then have "0 < (cmod (of_real (2 * exp (- max (pt_r a b c) (1 / 10 ^ 10)))
                        * of_real (sqrt (1 / (4 * pi)))))\<^sup>2"
    by (simp add: norm_mult)
  then show ?thesis
    by (simp add: pt_unmasked_def t sph_harm_00 spec_radial_1s)
qed

section \<open>The density field\<close>

text \<open>
  Claim C8. For every valid quantum state and every valid grid, \<open>compute_density\<close> returns
  a field of the shape of the grid whose entries are all finite reals \<open>\<ge> 0\<close>, and the
  maximum \<open>np.max\<close> of the field is a well-defined real number.
\<close>

theorem compute_density_nonneg:
  assumes "valid_state n l m" and "valid_grid e k"
  shows "\<exists>X Y Z d. compute_density n l m e k = Inr (X, Y, Z, d)
           \<and> has_shape X (nat k) (nat k) (nat k) \<and> has_shape d (nat k) (nat k) (nat k)
           \<and> all3 nonneg d \<and> (\<exists>v. np_max d = Inr (Fin v) \<and> 0 \<le> v)"
proof -
  obtain X Y Z d where df: "density_field n l m e k = (X, Y, Z, d)"
    by (metis prod_cases4)
  have k: "0 \<le> k" "1 \<le> k" using assms(2) by (simp_all add: valid_grid_def)
  have cd: "compute_density n l m e k = Inr (X, Y, Z, d)"
    using df k(1) valid_state_nl [OF assms(1)] by (simp add: compute_density_field)
  have nn: "all3 nonneg d" using assms(1) df by (rule field_nonneg)
  have "concat (concat d) \<noteq> []" using k(2) df by (rule field_nonempty)
  then have "\<exists>v. np_max d = Inr (Fin v) \<and> 0 \<le> v" using nn by (intro np_max_nonneg)
  then show ?thesis using cd nn has_shape_field [OF df] by blast
qed

theorem compute_density_nonneg_witness:
  "valid_state 2 1 (- 1) \<and> valid_grid 15 2
   \<and> (\<exists>X Y Z d. compute_density 2 1 (- 1) 15 2 = Inr (X, Y, Z, d)
         \<and> has_shape d 2 2 2 \<and> all3 nonneg d \<and> (\<exists>v. np_max d = Inr (Fin v) \<and> 0 \<le> v))"
proof -
  have s: "valid_state 2 1 (- 1)" by (simp add: valid_state_def)
  have g: "valid_grid 15 2" by (simp add: valid_grid_def)
  show ?thesis using s g compute_density_nonneg [OF s g] by simp blast
qed

text \<open>
  Claim C6. \<open>compute_density\<close> with \<open>n = 1\<close>, \<open>l = 0\<close>, \<open>m = 0\<close>, extent 15 and resolution 10
  raises nothing and returns a field of shape \<open>10 x 10 x 10\<close> whose entries are all \<open>\<ge> 0\<close>;
  the entry at index \<open>(0, 0, 0)\<close> is positive, so at least one entry is nonzero.
\<close>

theorem compute_density_1s_example:
  "\<exists>X Y Z d. compute_density 1 0 0 15 10 = Inr (X, Y, Z, d) \<and> has_shape d 10 10 10
      \<and> all3 nonneg d \<and> (\<exists>v. d ! 0 ! 0 ! 0 = Fin v \<and> 0 < v)"
proof -
  obtain X Y Z d where df: "density_field 1 0 0 15 10 = (X, Y, Z, d)"
    by (metis prod_cases4)
  have s: "valid_state 1 0 0" by (simp add: valid_state_def)
  have cd: "compute_density 1 0 0 15 10 = Inr (X, Y, Z, d)"
    using df valid_state_nl [OF s] by (simp add: compute_density_field)
  have nn: "all3 nonneg d" using s df by (rule field_nonneg)
  have sh: "has_shape d 10 10 10" using has_shape_field [OF df] by simp
  have i: "(0::nat) < nat 10" by simp
  have x: "X ! 0 ! 0 ! 0 = samples (- 15) 15 10 ! 0" using df i i i by (rule field_nth(1))
  then have x0: "X ! 0 ! 0 ! 0 = - 15" by (simp add: samples_def)
  then have r: "pt_r (X ! 0 ! 0 ! 0) (Y ! 0 ! 0 ! 0) (Z ! 0 ! 0 ! 0) \<noteq> 0"
    by (simp add: pt_r_zero_iff)
  have "d ! 0 ! 0 ! 0 = pt_density 1 0 0 (X ! 0 ! 0 ! 0) (Y ! 0 ! 0 ! 0) (Z ! 0 ! 0 ! 0)"
    using df i i i by (rule field_nth(4))
  then have "d ! 0 ! 0 ! 0 = pt_unmasked 1 0 0 (X ! 0 ! 0 ! 0) (Y ! 0 ! 0 ! 0) (Z ! 0 ! 0 ! 0)"
    using x0 by (simp add: pt_density_def)
  then have "\<exists>v. d ! 0 ! 0 ! 0 = Fin v \<and> 0 < v"
    using pt_unmasked_1s_pos [OF r] by simp
  then show ?thesis using cd nn sh by blast
qed

lemma field_intermediate:
  assumes "density_field n l m e k = (X, Y, Z, d)"
  shows "grid_r X Y Z = mesh3 pt_r (samples (- e) e k) (samples (- e) e k) (samples (- e) e k)"
    and "grid_theta Z (grid_r X Y Z)
           = mesh3 pt_theta (samples (- e) e k) (samples (- e) e k) (samples (- e) e k)"
    and "density_unmasked (map3 (spec_radial n l) (grid_r X Y Z))
           (angular_wavefunction l m (grid_theta Z (grid_r X Y Z)) (grid_phi Y X))
           = mesh3 (pt_unmasked n l m) (samples (- e) e k) (samples (- e) e k) (samples (- e) e k)"
  using assms
  by (auto simp add: density_field_def Let_def grid_r_mesh3 grid_theta_mesh3 grid_phi_mesh3
      density_unmasked_mesh3)

lemma origin_point:
  assumes df: "density_field n l m e k = (X, Y, Z, d)"
    and i: "i < nat k" and j: "j < nat k" and q: "q < nat k"
    and x: "X ! i ! j ! q = 0" and y: "Y ! i ! j ! q = 0" and z: "Z ! i ! j ! q = 0"
  shows "grid_r X Y Z ! i ! j ! q = 0"
    and "grid_theta Z (grid_r X Y Z) ! i ! j ! q = NaN"
    and "l \<noteq> 0 \<Longrightarrow> density_unmasked (map3 (spec_radial n l) (grid_r X Y Z))
           (angular_wavefunction l m (grid_theta Z (grid_r X Y Z)) (grid_phi Y X)) ! i ! j ! q = NaN"
    and "d ! i ! j ! q = Fin 0"
proof -
  let ?x = "samples (- e) e k"
  have xs: "?x ! i = 0" "?x ! j = 0" "?x ! q = 0"
    using field_nth(1-3) [OF df i j q] x y z by simp_all
  show "grid_r X Y Z ! i ! j ! q = 0"
    using i j q xs by (simp add: field_intermediate(1) [OF df] mesh3_nth pt_r_def)
  show "grid_theta Z (grid_r X Y Z) ! i ! j ! q = NaN"
    using i j q xs by (simp add: field_intermediate(2) [OF df] mesh3_nth pt_theta_origin)
  show "l \<noteq> 0 \<Longrightarrow> density_unmasked (map3 (spec_radial n l) (grid_r X Y Z))
           (angular_wavefunction l m (grid_theta Z (grid_r X Y Z)) (grid_phi Y X)) ! i ! j ! q = NaN"
    using i j q xs by (simp add: field_intermediate(3) [OF df] mesh3_nth pt_unmasked_origin)
  show "d ! i ! j ! q = Fin 0"
    using field_nth(4) [OF df i j q] x by (simp add: pt_density_masked)
qed

lemma norm_divisor_pos:
  assumes "genlaguerre (n - l - 1) (2 * l + 1) = Inr L" and "n \<noteq> 0"
  shows "0 \<le> n - l - 1 \<and> 0 \<le> n + l \<and> 0 < 2 * real_of_int n * factorial (n + l)"
  using assms by (auto simp add: genlaguerre_def factorial_def split: if_splits)

lemma spec_radial_1s_pos: "0 < spec_radial 1 0 r"
  by (simp add: spec_radial_1s)

lemma origin_point_s:
  assumes df: "density_field n 0 0 e k = (X, Y, Z, d)"
    and i: "i < nat k" and j: "j < nat k" and q: "q < nat k"
    and x: "X ! i ! j ! q = 0" and y: "Y ! i ! j ! q = 0" and z: "Z ! i ! j ! q = 0"
  shows "density_unmasked (map3 (spec_radial n 0) (grid_r X Y Z))
           (angular_wavefunction 0 0 (grid_theta Z (grid_r X Y Z)) (grid_phi Y X)) ! i ! j ! q
         = Fin ((spec_radial n 0 0 * sqrt (1 / (4 * pi)))\<^sup>2)"
proof -
  let ?x = "samples (- e) e k"
  have xs: "?x ! i = 0" "?x ! j = 0" "?x ! q = 0"
    using field_nth(1-3) [OF df i j q] x y z by simp_all
  show ?thesis
    using i j q xs by (simp add: field_intermediate(3) [OF df] mesh3_nth pt_unmasked_origin_s)
qed

section \<open>The origin of the grid\<close>

text \<open>
  Claim C5. The program derives the polar angle from the unclamped radius: the floor at
  \<open>1e-10\<close> is applied to a copy inside \<open>radial_wavefunction\<close> only. For \<open>n = 1\<close>, \<open>l = 0\<close>,
  \<open>m = 0\<close>, extent 15 and resolution 3 the centre of the grid has radius exactly zero when
  \<open>Z / r\<close> is computed, and the polar angle there is NaN.
\<close>

theorem angles_from_unclamped_radius:
  "\<exists>X Y Z d. compute_density 1 0 0 15 3 = Inr (X, Y, Z, d)
      \<and> grid_r X Y Z ! 1 ! 1 ! 1 = 0 \<and> grid_theta Z (grid_r X Y Z) ! 1 ! 1 ! 1 = NaN"
proof -
  obtain X Y Z d where df: "density_field 1 0 0 15 3 = (X, Y, Z, d)"
    by (metis prod_cases4)
  have "valid_nl 1 0" by (simp add: valid_nl_def)
  then have cd: "compute_density 1 0 0 15 3 = Inr (X, Y, Z, d)"
    using df by (simp add: compute_density_field)
  have c: "(1::nat) < nat 3" by simp
  have s: "samples (- 15) 15 3 ! 1 = 0" by (simp add: samples_def)
  have x: "X ! 1 ! 1 ! 1 = 0" and y: "Y ! 1 ! 1 ! 1 = 0" and z: "Z ! 1 ! 1 ! 1 = 0"
    using field_nth(1-3) [OF df c c c] s by simp_all
  show ?thesis using cd origin_point(1,2) [OF df c c c x y z] by blast
qed

text \<open>
  Claim C10, as the claim states it, fails. For the valid state \<open>n = 1\<close>, \<open>l = 0\<close>, \<open>m = 0\<close>
  with extent 15 and the odd resolution 3 the centre of the grid is the exact origin, but
  the density before the mask is a positive real there, not NaN: the spherical harmonic
  of degree 0 is constant and does not use the polar angle. And for the odd resolution 1
  the grid is the single point \<open>(-15, -15, -15)\<close> and does not contain the origin.
\<close>

theorem s_state_origin_not_nan:
  "(\<exists>X Y Z d R v. compute_density 1 0 0 15 3 = Inr (X, Y, Z, d)
       \<and> X ! 1 ! 1 ! 1 = 0 \<and> Y ! 1 ! 1 ! 1 = 0 \<and> Z ! 1 ! 1 ! 1 = 0
       \<and> radial_wavefunction 1 0 (grid_r X Y Z) = Inr R
       \<and> density_unmasked R
            (angular_wavefunction 0 0 (grid_theta Z (grid_r X Y Z)) (grid_phi Y X)) ! 1 ! 1 ! 1 = Fin v
       \<and> 0 < v)
   \<and> (\<exists>d. compute_density 1 0 0 15 1 = Inr ([[[- 15]]], [[[- 15]]], [[[- 15]]], d))"
proof
  obtain X Y Z d where df: "density_field 1 0 0 15 3 = (X, Y, Z, d)"
    by (metis prod_cases4)
  have v: "valid_nl 1 0" by (simp add: valid_nl_def)
  then have cd: "compute_density 1 0 0 15 3 = Inr (X, Y, Z, d)"
    using df by (simp add: compute_density_field)
  have c: "(1::nat) < nat 3" by simp
  have s: "samples (- 15) 15 3 ! 1 = 0" by (simp add: samples_def)
  have x: "X ! 1 ! 1 ! 1 = 0" and y: "Y ! 1 ! 1 ! 1 = 0" and z: "Z ! 1 ! 1 ! 1 = 0"
    using field_nth(1-3) [OF df c c c] s by simp_all
  have R: "radial_wavefunction 1 0 (grid_r X Y Z) = Inr (map3 (spec_radial 1 0) (grid_r X Y Z))"
    using v by (rule radial_valid)
  have "density_unmasked (map3 (spec_radial 1 0) (grid_r X Y Z))
          (angular_wavefunction 0 0 (grid_theta Z (grid_r X Y Z)) (grid_phi Y X)) ! 1 ! 1 ! 1
        = pt_unmasked 1 0 0 0 0 0"
    using c s by (simp add: field_intermediate(3) [OF df] mesh3_nth)
  also have "\<dots> = Fin ((spec_radial 1 0 0 * sqrt (1 / (4 * pi)))\<^sup>2)"
    by (rule pt_unmasked_origin_s)
  finally have u: "density_unmasked (map3 (spec_radial 1 0) (grid_r X Y Z))
          (angular_wavefunction 0 0 (grid_theta Z (grid_r X Y Z)) (grid_phi Y X)) ! 1 ! 1 ! 1
        = Fin ((spec_radial 1 0 0 * sqrt (1 / (4 * pi)))\<^sup>2)" .
  have "0 < spec_radial 1 0 0 * sqrt (1 / (4 * pi))"
    using spec_radial_1s_pos [of 0] by simp
  then have p: "0 < (spec_radial 1 0 0 * sqrt (1 / (4 * pi)))\<^sup>2"
    by (rule zero_less_power)
  show "\<exists>X Y Z d R v. compute_density 1 0 0 15 3 = Inr (X, Y, Z, d)
       \<and> X ! 1 ! 1 ! 1 = 0 \<and> Y ! 1 ! 1 ! 1 = 0 \<and> Z ! 1 ! 1 ! 1 = 0
       \<and> radial_wavefunction 1 0 (grid_r X Y Z) = Inr R
       \<and> density_unmasked R
            (angular_wavefunction 0 0 (grid_theta Z (grid_r X Y Z)) (grid_phi Y X)) ! 1 ! 1 ! 1 = Fin v
       \<and> 0 < v"
    using cd x y z R u p by blast
next
  have "valid_nl 1 0" by (simp add: valid_nl_def)
  then have "compute_density 1 0 0 15 1 = Inr (density_field 1 0 0 15 1)"
    by (simp add: compute_density_field)
  then show "\<exists>d. compute_density 1 0 0 15 1 = Inr ([[[- 15]]], [[[- 15]]], [[[- 15]]], d)"
    by (simp add: density_field_def samples_one mesh3_def Let_def)
qed

text \<open>
  Claim C10, amended. For every valid quantum state, every extent and every resolution
  \<open>k \<ge> 0\<close>, \<open>compute_density\<close> returns, and at every grid point that is the exact origin
  (\<open>X = Y = Z = 0\<close>) the radius is zero and the derived polar angle is NaN; there the
  density before the mask is NaN when \<open>l \<ge> 1\<close> and a finite real when \<open>l = 0\<close>; the mask,
  which includes \<open>X = 0\<close>, overwrites that entry with zero, and the returned field
  contains no NaN: all its entries are finite reals \<open>\<ge> 0\<close>. Whether a grid contains the
  exact origin is not asserted.
\<close>

theorem origin_nan_is_masked:
  assumes "valid_state n l m" and "0 \<le> k"
  shows "\<exists>X Y Z d R. compute_density n l m e k = Inr (X, Y, Z, d)
      \<and> radial_wavefunction n l (grid_r X Y Z) = Inr R
      \<and> all3 nonneg d
      \<and> (\<forall>i<nat k. \<forall>j<nat k. \<forall>q<nat k.
            X ! i ! j ! q = 0 \<and> Y ! i ! j ! q = 0 \<and> Z ! i ! j ! q = 0 \<longrightarrow>
              grid_r X Y Z ! i ! j ! q = 0
              \<and> grid_theta Z (grid_r X Y Z) ! i ! j ! q = NaN
              \<and> (l \<noteq> 0 \<longrightarrow>
                   density_unmasked R
                     (angular_wavefunction l m (grid_theta Z (grid_r X Y Z)) (grid_phi Y X))
                     ! i ! j ! q = NaN)
              \<and> (l = 0 \<longrightarrow>
                   (\<exists>v. density_unmasked R
                     (angular_wavefunction l m (grid_theta Z (grid_r X Y Z)) (grid_phi Y X))
                     ! i ! j ! q = Fin v))
              \<and> d ! i ! j ! q = Fin 0)"
proof -
  obtain X Y Z d where df: "density_field n l m e k = (X, Y, Z, d)"
    by (metis prod_cases4)
  have v: "valid_nl n l" using assms(1) by (rule valid_state_nl)
  have cd: "compute_density n l m e k = Inr (X, Y, Z, d)"
    using df v assms(2) by (simp add: compute_density_field)
  have R: "radial_wavefunction n l (grid_r X Y Z) = Inr (map3 (spec_radial n l) (grid_r X Y Z))"
    using v by (rule radial_valid)
  have nn: "all3 nonneg d" using assms(1) df by (rule field_nonneg)
  have pt: "grid_r X Y Z ! i ! j ! q = 0
      \<and> grid_theta Z (grid_r X Y Z) ! i ! j ! q = NaN
      \<and> (l \<noteq> 0 \<longrightarrow>
           density_unmasked (map3 (spec_radial n l) (grid_r X Y Z))
             (angular_wavefunction l m (grid_theta Z (grid_r X Y Z)) (grid_phi Y X))
             ! i ! j ! q = NaN)
      \<and> (l = 0 \<longrightarrow>
           (\<exists>v. density_unmasked (map3 (spec_radial n l) (grid_r X Y Z))
             (angular_wavefunction l m (grid_theta Z (grid_r X Y Z)) (grid_phi Y X))
             ! i ! j ! q = Fin v))
      \<and> d ! i ! j ! q = Fin 0"
    if "i < nat k" "j < nat k" "q < nat k"
      and "X ! i ! j ! q = 0 \<and> Y ! i ! j ! q = 0 \<and> Z ! i ! j ! q = 0" for i j q
  proof -
    have "\<exists>v. density_unmasked (map3 (spec_radial n l) (grid_r X Y Z))
             (angular_wavefunction l m (grid_theta Z (grid_r X Y Z)) (grid_phi Y X))
             ! i ! j ! q = Fin v" if l0: "l = 0"
    proof -
      have m0: "m = 0" using assms(1) l0 by (simp add: valid_state_def)
      have "density_field n 0 0 e k = (X, Y, Z, d)" using df l0 m0 by simp
      then show ?thesis
        using origin_point_s [of n e k X Y Z d i j q] \<open>i < nat k\<close> \<open>j < nat k\<close> \<open>q < nat k\<close>
          \<open>X ! i ! j ! q = 0 \<and> Y ! i ! j ! q = 0 \<and> Z ! i ! j ! q = 0\<close> l0 m0
        by blast
    qed
    then show ?thesis
      using origin_point [OF df that(1-3)] that(4) by blast
  qed
  show ?thesis
    using cd R nn pt by blast
qed

theorem origin_nan_is_masked_witness:
  "valid_state 2 1 0 \<and> valid_state 1 0 0 \<and> (0::int) \<le> 3
   \<and> (\<exists>X Y Z d R. compute_density 2 1 0 15 3 = Inr (X, Y, Z, d)
        \<and> (1::nat) < nat 3 \<and> X ! 1 ! 1 ! 1 = 0 \<and> Y ! 1 ! 1 ! 1 = 0 \<and> Z ! 1 ! 1 ! 1 = 0
        \<and> grid_r X Y Z ! 1 ! 1 ! 1 = 0
        \<and> grid_theta Z (grid_r X Y Z) ! 1 ! 1 ! 1 = NaN
        \<and> radial_wavefunction 2 1 (grid_r X Y Z) = Inr R \<and> (1::int) \<noteq> 0
        \<and> density_unmasked R
             (angular_wavefunction 1 0 (grid_theta Z (grid_r X Y Z)) (grid_phi Y X)) ! 1 ! 1 ! 1 = NaN
        \<and> d ! 1 ! 1 ! 1 = Fin 0 \<and> all3 nonneg d)
   \<and> (\<exists>X Y Z d R v. compute_density 1 0 0 15 3 = Inr (X, Y, Z, d)
        \<and> X ! 1 ! 1 ! 1 = 0 \<and> Y ! 1 ! 1 ! 1 = 0 \<and> Z ! 1 ! 1 ! 1 = 0
        \<and> grid_theta Z (grid_r X Y Z) ! 1 ! 1 ! 1 = NaN
        \<and> radial_wavefunction 1 0 (grid_r X Y Z) = Inr R
        \<and> density_unmasked R
             (angular_wavefunction 0 0 (grid_theta Z (grid_r X Y Z)) (grid_phi Y X)) ! 1 ! 1 ! 1 = Fin v
        \<and> d ! 1 ! 1 ! 1 = Fin 0 \<and> all3 nonneg d)"
proof -
  have s: "valid_state 2 1 0" and s0: "valid_state 1 0 0" by (simp_all add: valid_state_def)
  have k: "(0::int) \<le> 3" by simp
  have c: "(1::nat) < nat 3" by simp
  have sm: "samples (- 15) 15 3 ! 1 = 0" by (simp add: samples_def)
  have p: "\<exists>X Y Z d R. compute_density 2 1 0 15 3 = Inr (X, Y, Z, d)
        \<and> (1::nat) < nat 3 \<and> X ! 1 ! 1 ! 1 = 0 \<and> Y ! 1 ! 1 ! 1 = 0 \<and> Z ! 1 ! 1 ! 1 = 0
        \<and> grid_r X Y Z ! 1 ! 1 ! 1 = 0
        \<and> grid_theta Z (grid_r X Y Z) ! 1 ! 1 ! 1 = NaN
        \<and> radial_wavefunction 2 1 (grid_r X Y Z) = Inr R \<and> (1::int) \<noteq> 0
        \<and> density_unmasked R
             (angular_wavefunction 1 0 (grid_theta Z (grid_r X Y Z)) (grid_phi Y X)) ! 1 ! 1 ! 1 = NaN
        \<and> d ! 1 ! 1 ! 1 = Fin 0 \<and> all3 nonneg d"
  proof -
    obtain X Y Z d R where cd: "compute_density 2 1 0 15 3 = Inr (X, Y, Z, d)"
      and R: "radial_wavefunction 2 1 (grid_r X Y Z) = Inr R"
      and nn: "all3 nonneg d"
      and pt: "\<forall>i<nat 3. \<forall>j<nat 3. \<forall>q<nat 3.
            X ! i ! j ! q = 0 \<and> Y ! i ! j ! q = 0 \<and> Z ! i ! j ! q = 0 \<longrightarrow>
              grid_r X Y Z ! i ! j ! q = 0
              \<and> grid_theta Z (grid_r X Y Z) ! i ! j ! q = NaN
              \<and> ((1::int) \<noteq> 0 \<longrightarrow>
                   density_unmasked R
                     (angular_wavefunction 1 0 (grid_theta Z (grid_r X Y Z)) (grid_phi Y X))
                     ! i ! j ! q = NaN)
              \<and> ((1::int) = 0 \<longrightarrow>
                   (\<exists>v. density_unmasked R
                     (angular_wavefunction 1 0 (grid_theta Z (grid_r X Y Z)) (grid_phi Y X))
                     ! i ! j ! q = Fin v))
              \<and> d ! i ! j ! q = Fin 0"
      using origin_nan_is_masked [OF s k, of 15] by blast
    have df: "density_field 2 1 0 15 3 = (X, Y, Z, d)"
      using compute_density_Inr [OF cd] by simp
    have x: "X ! 1 ! 1 ! 1 = 0" and y: "Y ! 1 ! 1 ! 1 = 0" and z: "Z ! 1 ! 1 ! 1 = 0"
      using field_nth(1-3) [OF df c c c] sm by simp_all
    have one: "(1::int) \<noteq> 0" by simp
    show ?thesis
      using cd c x y z R nn one pt [rule_format, OF c c c] by blast
  qed
  have p0: "\<exists>X Y Z d R v. compute_density 1 0 0 15 3 = Inr (X, Y, Z, d)
        \<and> X ! 1 ! 1 ! 1 = 0 \<and> Y ! 1 ! 1 ! 1 = 0 \<and> Z ! 1 ! 1 ! 1 = 0
        \<and> grid_theta Z (grid_r X Y Z) ! 1 ! 1 ! 1 = NaN
        \<and> radial_wavefunction 1 0 (grid_r X Y Z) = Inr R
        \<and> density_unmasked R
             (angular_wavefunction 0 0 (grid_theta Z (grid_r X Y Z)) (grid_phi Y X)) ! 1 ! 1 ! 1 = Fin v
        \<and> d ! 1 ! 1 ! 1 = Fin 0 \<and> all3 nonneg d"
  proof -
    obtain X Y Z d R where cd: "compute_density 1 0 0 15 3 = Inr (X, Y, Z, d)"
      and R: "radial_wavefunction 1 0 (grid_r X Y Z) = Inr R"
      and nn: "all3 nonneg d"
      and pt: "\<forall>i<nat 3. \<forall>j<nat 3. \<forall>q<nat 3.
            X ! i ! j ! q = 0 \<and> Y ! i ! j ! q = 0 \<and> Z ! i ! j ! q = 0 \<longrightarrow>
              grid_r X Y Z ! i ! j ! q = 0
              \<and> grid_theta Z (grid_r X Y Z) ! i ! j ! q = NaN
              \<and> ((0::int) \<noteq> 0 \<longrightarrow>
                   density_unmasked R
                     (angular_wavefunction 0 0 (grid_theta Z (grid_r X Y Z)) (grid_phi Y X))
                     ! i ! j ! q = NaN)
              \<and> ((0::int) = 0 \<longrightarrow>
                   (\<exists>v. density_unmasked R
                     (angular_wavefunction 0 0 (grid_theta Z (grid_r X Y Z)) (grid_phi Y X))
                     ! i ! j ! q = Fin v))
              \<and> d ! i ! j ! q = Fin 0"
      using origin_nan_is_masked [OF s0 k, of 15] by blast
    have df: "density_field 1 0 0 15 3 = (X, Y, Z, d)"
      using compute_density_Inr [OF cd] by simp
    have x: "X ! 1 ! 1 ! 1 = 0" and y: "Y ! 1 ! 1 ! 1 = 0" and z: "Z ! 1 ! 1 ! 1 = 0"
      using field_nth(1-3) [OF df c c c] sm by simp_all
    have zero: "(0::int) = 0" by simp
    show ?thesis
      using cd x y z R nn zero pt [rule_format, OF c c c] by blast
  qed
  show ?thesis using s s0 k p p0 by blast
qed

end
